theory Spec2Isabelle
  imports Main
begin

section \<open>JavaScript string primitives used by the camera service\<close>

text \<open>
  The MRZ pipeline of \<^verbatim>\<open>src/app/services/camera.service.ts\<close> works on JavaScript
  strings. A string is modelled as a \<^typ>\<open>string\<close> (a list of \<^typ>\<open>char\<close>), one
  \<^typ>\<open>char\<close> per code unit; the embedding covers ASCII text, on which
  \<^verbatim>\<open>toUpperCase\<close>, \<^verbatim>\<open>trim\<close> and the regular expression class
  \<^verbatim>\<open>\s\<close> are the functions below. A character beyond ASCII is outside the
  embedding; the functions below leave it unchanged and take it for neither white space
  nor a letter.
\<close>

definition charCode :: "char \<Rightarrow> nat" where
  "charCode c = of_char c"

text \<open>The white space of \<^verbatim>\<open>\s\<close> and \<^verbatim>\<open>trim\<close>: TAB, LF, VT, FF, CR and space.\<close>

definition isSpace :: "char \<Rightarrow> bool" where
  "isSpace c = (charCode c = 9 \<or> charCode c = 10 \<or> charCode c = 11 \<or> charCode c = 12 \<or> charCode c = 13 \<or> charCode c = 32)"

definition isDigit :: "char \<Rightarrow> bool" where
  "isDigit c = (48 \<le> charCode c \<and> charCode c \<le> 57)"

definition isUpper :: "char \<Rightarrow> bool" where
  "isUpper c = (65 \<le> charCode c \<and> charCode c \<le> 90)"

definition isLower :: "char \<Rightarrow> bool" where
  "isLower c = (97 \<le> charCode c \<and> charCode c \<le> 122)"

definition upperChar :: "char \<Rightarrow> char" where
  "upperChar c = (if isLower c then char_of (charCode c - 32) else c)"

text \<open>\<^verbatim>\<open>s.toUpperCase()\<close>\<close>

definition toUpperCase :: "string \<Rightarrow> string" where
  "toUpperCase s = map upperChar s"

text \<open>\<^verbatim>\<open>s.trim()\<close>: white space is removed at both ends.\<close>

definition trim :: "string \<Rightarrow> string" where
  "trim s = rev (dropWhile isSpace (rev (dropWhile isSpace s)))"

text \<open>\<^verbatim>\<open>s.substring(a, b)\<close> for non-negative indices: both are clamped to the length and
  swapped when \<open>a > b\<close>.\<close>

definition substring :: "string \<Rightarrow> nat \<Rightarrow> nat \<Rightarrow> string" where
  "substring s a b =
     (let a' = min a (length s); b' = min b (length s);
          lo = min a' b'; hi = max a' b'
      in take (hi - lo) (drop lo s))"

text \<open>\<^verbatim>\<open>s.padEnd(n, c)\<close> for a one-character filler \<open>c\<close>.\<close>

definition padEnd :: "string \<Rightarrow> nat \<Rightarrow> char \<Rightarrow> string" where
  "padEnd s n c = (if n \<le> length s then s else s @ replicate (n - length s) c)"

text \<open>\<^verbatim>\<open>xs.slice(a, b)\<close> on an array, for non-negative indices.\<close>

definition slice :: "'a list \<Rightarrow> nat \<Rightarrow> nat \<Rightarrow> 'a list" where
  "slice xs a b = drop a (take b xs)"

text \<open>\<^verbatim>\<open>s.split(c)\<close> for a one-character separator: an empty string gives one empty
  piece, and a separator at the end gives a last empty piece.\<close>

fun split :: "string \<Rightarrow> char \<Rightarrow> string list" where
  "split [] c = [[]]"
| "split (x # xs) c =
     (if x = c then [] # split xs c
      else let pieces = split xs c in (x # hd pieces) # tl pieces)"

text \<open>\<^verbatim>\<open>s.includes(c)\<close> for a one-character needle.\<close>

definition includesChar :: "string \<Rightarrow> char \<Rightarrow> bool" where
  "includesChar s c = (c \<in> set s)"

text \<open>\<^verbatim>\<open>s.replace(/\s/g, '')\<close>\<close>

definition removeSpaces :: "string \<Rightarrow> string" where
  "removeSpaces s = filter (\<lambda>c. \<not> isSpace c) s"

text \<open>\<^verbatim>\<open>s.replace(/c/g, r)\<close> for a pattern that is one literal character.\<close>

definition replaceAll :: "string \<Rightarrow> char \<Rightarrow> string \<Rightarrow> string" where
  "replaceAll s c r = concat (map (\<lambda>x. if x = c then r else [x]) s)"

subsection \<open>parseInt\<close>

text \<open>
  \<^verbatim>\<open>parseInt(s)\<close> without a radix: leading white space is skipped, a sign is read, a
  prefix \<^verbatim>\<open>0x\<close> or \<^verbatim>\<open>0X\<close> selects radix 16, and the longest prefix of digits of the
  radix is the number. With no digit the result is \<^verbatim>\<open>NaN\<close>, modelled as \<open>None\<close>.
\<close>

definition digitValue :: "char \<Rightarrow> nat option" where
  "digitValue c =
     (if isDigit c then Some (charCode c - 48)
      else if isLower c then Some (charCode c - 87)
      else if isUpper c then Some (charCode c - 55)
      else None)"

definition isRadixDigit :: "nat \<Rightarrow> char \<Rightarrow> bool" where
  "isRadixDigit r c = (case digitValue c of None \<Rightarrow> False | Some v \<Rightarrow> v < r)"

definition digitsValue :: "nat \<Rightarrow> string \<Rightarrow> int" where
  "digitsValue r z = foldl (\<lambda>acc c. acc * int r + int (the (digitValue c))) 0 z"

definition parseInt :: "string \<Rightarrow> int option" where
  "parseInt s =
     (let s0 = dropWhile isSpace s;
          neg = (s0 \<noteq> [] \<and> hd s0 = CHR ''-'');
          s1 = (if s0 \<noteq> [] \<and> (hd s0 = CHR ''-'' \<or> hd s0 = CHR ''+'') then tl s0 else s0);
          hex = (take 2 s1 = ''0x'' \<or> take 2 s1 = ''0X'');
          r = (if hex then 16 else 10);
          s2 = (if hex then drop 2 s1 else s1);
          z = takeWhile (isRadixDigit r) s2
      in if z = [] then None
         else Some (if neg then - digitsValue r z else digitsValue r z))"

text \<open>The comparison \<^verbatim>\<open>x < n\<close> of a number that may be \<^verbatim>\<open>NaN\<close>: false on \<^verbatim>\<open>NaN\<close>.\<close>

definition numLess :: "int option \<Rightarrow> int \<Rightarrow> bool" where
  "numLess x n = (case x of None \<Rightarrow> False | Some v \<Rightarrow> v < n)"

section \<open>Date formatting\<close>

text \<open>
  \<^verbatim>\<open>formatMRZDate(dateStr: string | undefined)\<close>; \<open>None\<close> is \<^verbatim>\<open>undefined\<close>, and the
  empty string is falsy as well.
\<close>

definition formatMRZDate :: "string option \<Rightarrow> string" where
  "formatMRZDate dateStr =
     (case dateStr of
        None \<Rightarrow> ''''
      | Some d \<Rightarrow>
          if d = [] \<or> length d \<noteq> 6 then ''''
          else
            let year = substring d 0 2;
                month = substring d 2 4;
                day = substring d 4 6;
                fullYear = (if numLess (parseInt year) 30 then ''20'' @ year else ''19'' @ year)
            in fullYear @ ''-'' @ month @ ''-'' @ day)"

section \<open>The MRZ pipeline\<close>

subsection \<open>Data\<close>

text \<open>
  The parser \<^verbatim>\<open>parse\<close> of the package \<^verbatim>\<open>mrz\<close> is not part of the repository. It
  is a parameter of the model: a function from the lines to a thrown error or a parse
  result. A field of the result is a string or \<^verbatim>\<open>null\<close>.
\<close>

datatype js_error = JSError string

record MRZFields =
  fieldDocumentCode :: "string option"
  fieldDocumentNumber :: "string option"
  fieldFirstName :: "string option"
  fieldLastName :: "string option"
  fieldNationality :: "string option"
  fieldBirthDate :: "string option"
  fieldSex :: "string option"
  fieldExpirationDate :: "string option"
  fieldIssuingState :: "string option"

record ParseResult =
  resultValid :: bool
  resultFields :: MRZFields

type_synonym Parser = "string list \<Rightarrow> js_error + ParseResult"

text \<open>The interface \<^verbatim>\<open>MRZData\<close>.\<close>

record MRZData =
  documentType :: string
  documentNumber :: string
  firstName :: string
  lastName :: string
  nationality :: string
  birthDate :: string
  sex :: string
  expirationDate :: string
  issuingState :: string
  valid :: bool
  rawMRZ :: "string list"

text \<open>The two signals that \<^verbatim>\<open>parseMRZFromText\<close> sets; \<open>None\<close> is \<^verbatim>\<open>null\<close>.\<close>

record MRZSignals =
  mrzData :: "MRZData option"
  mrzError :: "string option"

definition msgNoMRZ :: string where
  "msgNoMRZ = ''No MRZ detected. Position the MRZ zone (bottom of ID/passport) in view.''"

definition msgIncomplete :: string where
  "msgIncomplete = ''Incomplete MRZ detected. Need at least 2 lines.''"

definition msgValidationFailed :: string where
  "msgValidationFailed = ''MRZ detected but validation failed. Try adjusting the camera angle.''"

definition msgCouldNotParse :: string where
  "msgCouldNotParse = ''Could not parse MRZ. Ensure the document is clearly visible.''"

subsection \<open>Result projection\<close>

text \<open>\<^verbatim>\<open>x || ''\<close> and \<^verbatim>\<open>x || undefined\<close> on a string or \<^verbatim>\<open>null\<close>: the empty string is falsy.\<close>

definition orEmpty :: "string option \<Rightarrow> string" where
  "orEmpty x = (case x of None \<Rightarrow> '''' | Some s \<Rightarrow> s)"

definition orUndefined :: "string option \<Rightarrow> string option" where
  "orUndefined x = (case x of None \<Rightarrow> None | Some s \<Rightarrow> if s = [] then None else Some s)"

definition getDocumentType :: "string \<Rightarrow> string" where
  "getDocumentType docCode =
     (if docCode = [] then ''Unknown''
      else
        let firstChar = upperChar (hd docCode)
        in if firstChar = CHR ''P'' then ''Passport''
           else if firstChar = CHR ''I'' then ''ID Card''
           else if firstChar = CHR ''A'' then ''ID Card (Type A)''
           else if firstChar = CHR ''C'' then ''ID Card (Type C)''
           else if firstChar = CHR ''V'' then ''Visa''
           else if firstChar = CHR ''D'' then ''Driver'' @ [CHR 0x27] @ ''s License''
           else ''Document ('' @ docCode @ '')'')"

text \<open>Lines 232 to 251: the record of a valid result, or the validation diagnostic.\<close>

definition projectResult :: "ParseResult \<Rightarrow> string list \<Rightarrow> MRZSignals" where
  "projectResult parseResult cleanedLines =
     (if resultValid parseResult then
        let fields = resultFields parseResult
        in \<lparr>mrzData = Some
              \<lparr>documentType = getDocumentType (orEmpty (fieldDocumentCode fields)),
               documentNumber = orEmpty (fieldDocumentNumber fields),
               firstName = orEmpty (fieldFirstName fields),
               lastName = orEmpty (fieldLastName fields),
               nationality = orEmpty (fieldNationality fields),
               birthDate = formatMRZDate (orUndefined (fieldBirthDate fields)),
               sex = orEmpty (fieldSex fields),
               expirationDate = formatMRZDate (orUndefined (fieldExpirationDate fields)),
               issuingState = orEmpty (fieldIssuingState fields),
               valid = resultValid parseResult,
               rawMRZ = cleanedLines\<rparr>,
            mrzError = None\<rparr>
      else \<lparr>mrzData = None, mrzError = Some msgValidationFailed\<rparr>)"

subsection \<open>Classification and cleaning of lines\<close>

text \<open>The character class \<^verbatim>\<open>[A-Z0-9<]\<close> and the test of \<^verbatim>\<open>/^[A-Z0-9<]{30,}$/\<close>.\<close>

definition isMRZChar :: "char \<Rightarrow> bool" where
  "isMRZChar c = (isUpper c \<or> isDigit c \<or> c = CHR ''<'')"

definition testMRZPattern :: "string \<Rightarrow> bool" where
  "testMRZPattern s = (30 \<le> length s \<and> list_all isMRZChar s)"

text \<open>Lines 185 to 188: the lines of the text, trimmed and in upper case, that contain
  the filler or match the pattern once their white space is removed.\<close>

definition candidateLines :: "string \<Rightarrow> string list" where
  "candidateLines text =
     (let lines = map (\<lambda>line. toUpperCase (trim line)) (split text CHR 0x0A)
      in filter (\<lambda>line. includesChar line CHR ''<'' \<or> testMRZPattern (removeSpaces line)) lines)"

text \<open>Lines 197 to 201.\<close>

definition cleanLine :: "string \<Rightarrow> string" where
  "cleanLine line = replaceAll (replaceAll (removeSpaces line) CHR ''O'' ''0'') CHR ''<'' ''<''"

definition cleanLines :: "string list \<Rightarrow> string list" where
  "cleanLines mrzLines = map cleanLine mrzLines"

text \<open>\<^verbatim>\<open>cleanedLines.slice(0, n).map(l => l.substring(0, w).padEnd(w, '<'))\<close>\<close>

definition fitLines :: "string list \<Rightarrow> nat \<Rightarrow> nat \<Rightarrow> string list" where
  "fitLines cleanedLines n w =
     map (\<lambda>l. padEnd (substring l 0 w) w CHR ''<'') (slice cleanedLines 0 n)"

subsection \<open>Format selection and the pipeline\<close>

text \<open>
  Lines 204 to 230. The result is \<open>Inl\<close> for an error that leaves the block, \<open>Inr None\<close>
  for the early return on fewer than two lines, and \<open>Inr (Some r)\<close> for a parse result.
  The first component records the arguments of the calls of the parser, in order.
\<close>

definition selectAndParse :: "Parser \<Rightarrow> string list \<Rightarrow> string list list \<times> (js_error + ParseResult option)" where
  "selectAndParse parseMRZ cleanedLines =
     (if 3 \<le> length cleanedLines then
        let td1Lines = fitLines cleanedLines 3 30
        in case parseMRZ td1Lines of
             Inr parseResult \<Rightarrow> ([td1Lines], Inr (Some parseResult))
           | Inl _ \<Rightarrow>
               (let td2Lines = fitLines cleanedLines 2 36
                in (case parseMRZ td2Lines of
                      Inr parseResult \<Rightarrow> ([td1Lines, td2Lines], Inr (Some parseResult))
                    | Inl err \<Rightarrow> ([td1Lines, td2Lines], Inl err)))
      else if 2 \<le> length cleanedLines then
        let lineLength = length (cleanedLines ! 0)
        in if 44 \<le> lineLength then
             let td3Lines = fitLines cleanedLines 2 44
             in (case parseMRZ td3Lines of
                   Inr parseResult \<Rightarrow> ([td3Lines], Inr (Some parseResult))
                 | Inl err \<Rightarrow> ([td3Lines], Inl err))
           else
             let td2Lines = fitLines cleanedLines 2 36
             in (case parseMRZ td2Lines of
                   Inr parseResult \<Rightarrow> ([td2Lines], Inr (Some parseResult))
                 | Inl err \<Rightarrow> ([td2Lines], Inl err))
      else ([], Inr None))"

text \<open>The body of the outer \<^verbatim>\<open>try\<close> of \<^verbatim>\<open>parseMRZFromText\<close>.\<close>

definition parseMRZFromText_try :: "Parser \<Rightarrow> string \<Rightarrow> string list list \<times> (js_error + MRZSignals)" where
  "parseMRZFromText_try parseMRZ text =
     (let mrzLines = candidateLines text
      in if length mrzLines = 0 then
           ([], Inr \<lparr>mrzData = None, mrzError = Some msgNoMRZ\<rparr>)
         else
           let cleanedLines = cleanLines mrzLines
           in case selectAndParse parseMRZ cleanedLines of
                (calls, Inl err) \<Rightarrow> (calls, Inl err)
              | (calls, Inr None) \<Rightarrow>
                  (calls, Inr \<lparr>mrzData = None, mrzError = Some msgIncomplete\<rparr>)
              | (calls, Inr (Some parseResult)) \<Rightarrow>
                  (calls, Inr (projectResult parseResult cleanedLines)))"

text \<open>\<^verbatim>\<open>parseMRZFromText\<close>: the outer \<^verbatim>\<open>catch\<close> turns an error into the last
  diagnostic. The value is the state of the two signals when the method returns.\<close>

definition parseMRZFromText :: "Parser \<Rightarrow> string \<Rightarrow> MRZSignals" where
  "parseMRZFromText parseMRZ text =
     (case snd (parseMRZFromText_try parseMRZ text) of
        Inr signals \<Rightarrow> signals
      | Inl err \<Rightarrow> \<lparr>mrzData = None, mrzError = Some msgCouldNotParse\<rparr>)"

text \<open>The calls of the parser that one run of \<^verbatim>\<open>parseMRZFromText\<close> makes.\<close>

definition parseCalls :: "Parser \<Rightarrow> string \<Rightarrow> string list list" where
  "parseCalls parseMRZ text = fst (parseMRZFromText_try parseMRZ text)"

subsection \<open>The normalization of one line\<close>

text \<open>
  What the pipeline does to one line of the text on its way into an attempt of width
  \<open>w\<close>: \<^verbatim>\<open>trim\<close>, \<^verbatim>\<open>toUpperCase\<close>, the cleaning, \<^verbatim>\<open>substring(0, w)\<close> and
  \<^verbatim>\<open>padEnd(w, '<')\<close>.
\<close>

definition normalizeLine :: "nat \<Rightarrow> string \<Rightarrow> string" where
  "normalizeLine w line =
     padEnd (substring (cleanLine (toUpperCase (trim line))) 0 w) w CHR ''<''"

text \<open>The specification's wording of the last step: truncate to the target width if
  longer, pad on the right with the filler if shorter.\<close>

definition fitWidth :: "nat \<Rightarrow> string \<Rightarrow> string" where
  "fitWidth w l = (if w < length l then take w l else l @ replicate (w - length l) CHR ''<'')"

subsection \<open>A stand-in for the parser\<close>

text \<open>
  A concrete parser for the examples. It throws on a character outside the MRZ set and on
  an unknown shape; it reports three lines of 30 as invalid, two lines of 36 as valid and
  two lines of 44 as valid, always with the same fields.
\<close>

definition sampleFields :: MRZFields where
  "sampleFields =
     \<lparr>fieldDocumentCode = Some ''I'', fieldDocumentNumber = Some ''D23145890'',
      fieldFirstName = Some ''ANNA'', fieldLastName = Some ''ERIKSSON'',
      fieldNationality = Some ''UTO'', fieldBirthDate = Some ''740812'',
      fieldSex = Some ''female'', fieldExpirationDate = Some ''120415'',
      fieldIssuingState = Some ''UTO''\<rparr>"

definition sampleParser :: Parser where
  "sampleParser lines =
     (if \<not> list_all (list_all isMRZChar) lines then Inl (JSError ''invalid character'')
      else if length lines = 3 \<and> list_all (\<lambda>l. length l = 30) lines then
        Inr \<lparr>resultValid = False, resultFields = sampleFields\<rparr>
      else if length lines = 2 \<and> list_all (\<lambda>l. length l = 36) lines then
        Inr \<lparr>resultValid = True, resultFields = sampleFields\<rparr>
      else if length lines = 2 \<and> list_all (\<lambda>l. length l = 44) lines then
        Inr \<lparr>resultValid = True, resultFields = sampleFields\<rparr>
      else Inl (JSError ''unrecognized document format''))"


subsection \<open>Notions of the specification\<close>

text \<open>The number that the first two characters of a date string denote when they are
  digits: the two-digit year of \<^verbatim>\<open>YYMMDD\<close>.\<close>

definition twoDigitYear :: "string \<Rightarrow> nat" where
  "twoDigitYear d = 10 * (charCode (d ! 0) - 48) + (charCode (d ! 1) - 48)"

text \<open>The constant \<^verbatim>\<open>cleanedLines\<close> of \<^verbatim>\<open>parseMRZFromText\<close> as a function of the text:
  the cleaned candidate lines.\<close>

definition cleanedLines :: "string \<Rightarrow> string list" where
  "cleanedLines text = cleanLines (candidateLines text)"

subsection \<open>Example texts\<close>

text \<open>Three lines in the shape of TD2, 36 characters each.\<close>

definition threeTD2Lines :: string where
  "threeTD2Lines =
     ''I<UTOERIKSSON<<ANNA<MARIA<<<<<<<<<<<\<newline>D231458907UTO7408122F1204159<<<<<<<6\<newline><<<<<<<<<<<<<<<<<<<<<<<<<<<<<<<<<<<<''"

text \<open>Two TD2 lines followed by a line of other text that contains the filler.\<close>

definition spuriousThirdLine :: string where
  "spuriousThirdLine =
     ''I<UTOERIKSSON<<ANNA<MARIA<<<<<<<<<<<\<newline>D231458907UTO7408122F1204159<<<<<<<6\<newline>signature: <j.doe>''"

text \<open>Two TD2 lines, the first without its trailing fillers.\<close>

definition twoShortLines :: string where
  "twoShortLines =
     ''I<UTOERIKSSON<<ANNA<MARIA\<newline>D231458907UTO7408122F1204159<<<<<<<6''"

text \<open>Two lines, the first with a character outside the MRZ set.\<close>

definition twoLinesBadChar :: string where
  "twoLinesBadChar =
     ''I<UTOERIKSSON<<ANNA-MARIA<<<<<<<<<<<\<newline>D231458907UTO7408122F1204159<<<<<<<6''"

text \<open>Two passport lines of 44 characters.\<close>

definition twoTD3Lines :: string where
  "twoTD3Lines =
     ''P<UTOERIKSSON<<ANNA<MARIA<<<<<<<<<<<<<<<<<<<\<newline>L898902C36UTO7408122F1204159ZE184226B<<<<<10''"

text \<open>One candidate line among other text.\<close>

definition oneCandidateLine :: string where
  "oneCandidateLine = ''Republic of Utopia\<newline>I<UTOERIKSSON<<ANNA<MARIA<<<<<<<<<<<''"

section \<open>Properties of the date formatting\<close>

lemma digit_facts:
  assumes "isDigit c"
  shows "\<not> isSpace c" "c \<noteq> CHR ''-''" "c \<noteq> CHR ''+''" "c \<noteq> CHR ''x''" "c \<noteq> CHR ''X''"
    "isRadixDigit 10 c" "digitValue c = Some (charCode c - 48)"
  using assms by (auto simp: isDigit_def isSpace_def charCode_def isRadixDigit_def digitValue_def)

lemma parseInt_two_digits:
  assumes "isDigit a" "isDigit b"
  shows "parseInt [a, b] = Some (int (10 * (charCode a - 48) + (charCode b - 48)))"
  using digit_facts[OF assms(1)] digit_facts[OF assms(2)]
  by (simp add: parseInt_def Let_def digitsValue_def)

lemma length_six:
  assumes "length d = 6"
  obtains a b c e f g where "d = [a, b, c, e, f, g]"
proof -
  from assms obtain a d1 where 1: "d = a # d1" "length d1 = 5" by (cases d) auto
  then obtain b d2 where 2: "d1 = b # d2" "length d2 = 4" by (cases d1) auto
  then obtain c d3 where 3: "d2 = c # d3" "length d3 = 3" by (cases d2) auto
  then obtain e d4 where 4: "d3 = e # d4" "length d4 = 2" by (cases d3) auto
  then obtain f d5 where 5: "d4 = f # d5" "length d5 = 1" by (cases d4) auto
  then obtain g where 6: "d5 = [g]" by (cases d5) auto
  with 1 2 3 4 5 that show thesis by simp
qed

lemma formatMRZDate_six:
  "formatMRZDate (Some [a, b, c, e, f, g]) =
     (if numLess (parseInt [a, b]) 30 then ''20'' else ''19'') @ [a, b] @ ''-'' @ [c, e] @ ''-'' @ [f, g]"
  by (simp add: formatMRZDate_def substring_def Let_def)

lemma formatMRZDate_digits:
  assumes "isDigit a" "isDigit b"
  shows "formatMRZDate (Some [a, b, c, e, f, g]) =
     (if 10 * (charCode a - 48) + (charCode b - 48) < 30 then ''20'' else ''19'')
       @ [a, b] @ ''-'' @ [c, e] @ ''-'' @ [f, g]"
  unfolding formatMRZDate_six parseInt_two_digits[OF assms] numLess_def
  by (simp del: of_nat_add of_nat_mult)

text \<open>
  Claim C6. For every date string of six digits, \<^verbatim>\<open>formatMRZDate\<close> puts a two-digit
  year below 30 into the 2000s and a year of 30 or above into the 1900s, and the result is
  the ISO form \<^verbatim>\<open>yyyy-mm-dd\<close>. In particular \<^verbatim>\<open>290101\<close> gives \<^verbatim>\<open>2029-01-01\<close> and
  \<^verbatim>\<open>300101\<close> gives \<^verbatim>\<open>1930-01-01\<close>.
\<close>

theorem formatMRZDate_century:
  "(length d = 6 \<and> list_all isDigit d \<longrightarrow>
      formatMRZDate (Some d) =
        (if twoDigitYear d < 30 then ''20'' else ''19'')
          @ take 2 d @ ''-'' @ take 2 (drop 2 d) @ ''-'' @ drop 4 d)
   \<and> formatMRZDate (Some ''290101'') = ''2029-01-01''
   \<and> formatMRZDate (Some ''300101'') = ''1930-01-01''"
proof (intro conjI impI)
  assume h: "length d = 6 \<and> list_all isDigit d"
  then obtain a b c e f g where d: "d = [a, b, c, e, f, g]"
    using length_six by blast
  with h have "isDigit a" "isDigit b" by simp_all
  from formatMRZDate_digits[OF this] show "formatMRZDate (Some d) =
        (if twoDigitYear d < 30 then ''20'' else ''19'')
          @ take 2 d @ ''-'' @ take 2 (drop 2 d) @ ''-'' @ drop 4 d"
    by (simp add: d twoDigitYear_def)
next
  show "formatMRZDate (Some ''290101'') = ''2029-01-01''" by code_simp
next
  show "formatMRZDate (Some ''300101'') = ''1930-01-01''" by code_simp
qed

theorem formatMRZDate_century_witness:
  "length ''151231'' = 6 \<and> list_all isDigit ''151231'' \<and> twoDigitYear ''151231'' = 15
   \<and> formatMRZDate (Some ''151231'') = ''2015-12-31''"
proof -
  have h: "length ''151231'' = 6 \<and> list_all isDigit ''151231''"
    by (simp add: isDigit_def charCode_def)
  have y: "twoDigitYear ''151231'' = 15"
    by (simp add: twoDigitYear_def charCode_def)
  from formatMRZDate_century[of "''151231''"] h y show ?thesis by simp
qed

text \<open>
  Claim C10. \<^verbatim>\<open>formatMRZDate\<close> checks no calendar range: for six digits the result is
  the year with its century, then the month and the day as they stand in the input, also
  when they are out of range; \<^verbatim>\<open>991399\<close> gives \<^verbatim>\<open>1999-13-99\<close>.
\<close>

theorem formatMRZDate_no_range_check:
  "(isDigit y1 \<and> isDigit y2 \<and> isDigit m1 \<and> isDigit m2 \<and> isDigit d1 \<and> isDigit d2 \<longrightarrow>
      formatMRZDate (Some [y1, y2, m1, m2, d1, d2]) =
        (if twoDigitYear [y1, y2] < 30 then ''20'' else ''19'')
          @ [y1, y2, CHR ''-'', m1, m2, CHR ''-'', d1, d2])
   \<and> formatMRZDate (Some ''991399'') = ''1999-13-99''"
proof (intro conjI impI)
  assume "isDigit y1 \<and> isDigit y2 \<and> isDigit m1 \<and> isDigit m2 \<and> isDigit d1 \<and> isDigit d2"
  then have "isDigit y1" "isDigit y2" by simp_all
  from formatMRZDate_digits[OF this]
  show "formatMRZDate (Some [y1, y2, m1, m2, d1, d2]) =
        (if twoDigitYear [y1, y2] < 30 then ''20'' else ''19'')
          @ [y1, y2, CHR ''-'', m1, m2, CHR ''-'', d1, d2]"
    by (simp add: twoDigitYear_def)
next
  show "formatMRZDate (Some ''991399'') = ''1999-13-99''" by code_simp
qed

theorem formatMRZDate_no_range_check_witness:
  "list_all isDigit ''000000'' \<and> formatMRZDate (Some ''000000'') = ''2000-00-00''"
proof -
  have h: "isDigit CHR ''0''" by (simp add: isDigit_def charCode_def)
  have y: "twoDigitYear ''00'' = 0" by (simp add: twoDigitYear_def charCode_def)
  from formatMRZDate_no_range_check[of "CHR ''0''" "CHR ''0''" "CHR ''0''" "CHR ''0''" "CHR ''0''" "CHR ''0''"] h y
  show ?thesis by simp
qed

text \<open>
  Claim C7 says that every string that is not exactly six digits gives the empty string.
  The code tests the length only: a string of length 6 with other characters is formatted.
\<close>

theorem formatMRZDate_nondigit_counterexample:
  "length ''ABCDEF'' = 6 \<and> \<not> list_all isDigit ''ABCDEF''
   \<and> formatMRZDate (Some ''ABCDEF'') = ''19AB-CD-EF''
   \<and> formatMRZDate (Some ''ABCDEF'') \<noteq> ''''"
  by code_simp

text \<open>
  Claim C7, amended. \<^verbatim>\<open>formatMRZDate\<close> returns the empty string exactly for the strings
  whose length is not 6, and for \<^verbatim>\<open>undefined\<close>; it raises no error.
\<close>

theorem formatMRZDate_empty_iff:
  "(formatMRZDate (Some d) = '''' \<longleftrightarrow> length d \<noteq> 6) \<and> formatMRZDate None = ''''"
  by (auto simp: formatMRZDate_def Let_def)

theorem formatMRZDate_empty_iff_witness:
  "length ''12345'' \<noteq> 6 \<and> formatMRZDate (Some ''12345'') = ''''
   \<and> formatMRZDate (Some ''1234567'') = ''''"
  using formatMRZDate_empty_iff[of "''12345''"] formatMRZDate_empty_iff[of "''1234567''"]
  by simp

section \<open>Properties of the pipeline\<close>

subsection \<open>Fitting a line to a width\<close>

lemma substring_from_0: "substring l 0 w = take w l"
  by (simp add: substring_def Let_def min_def)

lemma fit_eq_fitWidth: "padEnd (substring l 0 w) w CHR ''<'' = fitWidth w l"
  by (simp add: substring_from_0 padEnd_def fitWidth_def min_def)

lemma length_fitWidth: "length (fitWidth w l) = w"
  by (simp add: fitWidth_def)

lemma fitWidth_same_length: "length l = w \<Longrightarrow> fitWidth w l = l"
  by (simp add: fitWidth_def)

lemma set_fitWidth: "set (fitWidth w l) \<subseteq> insert CHR ''<'' (set l)"
  by (auto simp: fitWidth_def dest: in_set_takeD)

lemma fitLines_eq: "fitLines cl n w = map (fitWidth w) (take n cl)"
  by (simp add: fitLines_def slice_def fit_eq_fitWidth)

lemma normalizeLine_eq: "normalizeLine w line = fitWidth w (cleanLine (toUpperCase (trim line)))"
  by (simp add: normalizeLine_def fit_eq_fitWidth)

subsection \<open>The branches of the selection\<close>

lemma selectAndParse_three_returns:
  assumes "3 \<le> length cl" and "p (fitLines cl 3 30) = Inr r"
  shows "selectAndParse p cl = ([fitLines cl 3 30], Inr (Some r))"
  using assms by (simp add: selectAndParse_def Let_def)

lemma selectAndParse_three_throws:
  assumes "3 \<le> length cl" and "p (fitLines cl 3 30) = Inl e"
  shows "selectAndParse p cl =
    ([fitLines cl 3 30, fitLines cl 2 36],
     case p (fitLines cl 2 36) of Inl e' \<Rightarrow> Inl e' | Inr r \<Rightarrow> Inr (Some r))"
  using assms by (simp add: selectAndParse_def Let_def split: sum.splits)

lemma selectAndParse_two:
  assumes "length cl = 2"
  shows "selectAndParse p cl =
    ([fitLines cl 2 (if 44 \<le> length (cl ! 0) then 44 else 36)],
     case p (fitLines cl 2 (if 44 \<le> length (cl ! 0) then 44 else 36)) of
       Inl e' \<Rightarrow> Inl e' | Inr r \<Rightarrow> Inr (Some r))"
  using assms by (simp add: selectAndParse_def Let_def split: sum.splits)

lemma selectAndParse_short:
  assumes "length cl < 2"
  shows "selectAndParse p cl = ([], Inr None)"
  using assms by (simp add: selectAndParse_def)

text \<open>The outcome of the selection is the outcome of the last call.\<close>

lemma selectAndParse_last:
  "fst (selectAndParse p cl) = [] \<and> snd (selectAndParse p cl) = Inr None \<and> length cl < 2
   \<or> fst (selectAndParse p cl) \<noteq> [] \<and> 2 \<le> length cl \<and>
     snd (selectAndParse p cl) =
       (case p (last (fst (selectAndParse p cl))) of Inl e' \<Rightarrow> Inl e' | Inr r \<Rightarrow> Inr (Some r))"
  by (simp add: selectAndParse_def Let_def split: sum.splits)

text \<open>Every call has one of the three shapes.\<close>

lemma selectAndParse_calls:
  assumes "c \<in> set (fst (selectAndParse p cl))"
  shows "c = fitLines cl 3 30 \<and> 3 \<le> length cl
       \<or> c = fitLines cl 2 36 \<and> 2 \<le> length cl
       \<or> c = fitLines cl 2 44 \<and> 2 \<le> length cl"
  using assms by (auto simp: selectAndParse_def Let_def split: sum.splits if_splits)

subsection \<open>The method in terms of the selection\<close>

lemma length_cleanedLines: "length (cleanedLines text) = length (candidateLines text)"
  by (simp add: cleanedLines_def cleanLines_def)

lemma parseMRZFromText_unfold:
  "parseMRZFromText p text =
     (if candidateLines text = [] then \<lparr>mrzData = None, mrzError = Some msgNoMRZ\<rparr>
      else case snd (selectAndParse p (cleanedLines text)) of
        Inl e \<Rightarrow> \<lparr>mrzData = None, mrzError = Some msgCouldNotParse\<rparr>
      | Inr None \<Rightarrow> \<lparr>mrzData = None, mrzError = Some msgIncomplete\<rparr>
      | Inr (Some r) \<Rightarrow> projectResult r (cleanedLines text))"
  by (simp add: parseMRZFromText_def parseMRZFromText_try_def cleanedLines_def Let_def
      split: prod.splits sum.splits option.splits)

lemma parseCalls_unfold:
  "parseCalls p text =
     (if candidateLines text = [] then [] else fst (selectAndParse p (cleanedLines text)))"
  by (simp add: parseCalls_def parseMRZFromText_try_def cleanedLines_def Let_def
      split: prod.splits sum.splits option.splits)

lemma projectResult_exactly_one:
  "(mrzData (projectResult r cl) = None) \<noteq> (mrzError (projectResult r cl) = None)"
  by (simp add: projectResult_def Let_def)

lemma projectResult_invalid:
  "\<not> resultValid r \<Longrightarrow> projectResult r cl = \<lparr>mrzData = None, mrzError = Some msgValidationFailed\<rparr>"
  by (simp add: projectResult_def)

lemma projectResult_Some:
  assumes "mrzData (projectResult r cl) = Some d"
  shows "resultValid r \<and> rawMRZ d = cl \<and> valid d"
  using assms by (auto simp: projectResult_def Let_def split: if_splits)

subsection \<open>Lines without white space, lower case or the letter O\<close>

lemma dropWhile_none: "\<forall>c \<in> set s. \<not> P c \<Longrightarrow> dropWhile P s = s"
  by (cases s) auto

lemma trim_no_space: "\<forall>c \<in> set s. \<not> isSpace c \<Longrightarrow> trim s = s"
  by (simp add: trim_def dropWhile_none)

lemma toUpperCase_no_lower: "\<forall>c \<in> set s. \<not> isLower c \<Longrightarrow> toUpperCase s = s"
  by (simp add: toUpperCase_def upperChar_def map_idI)

lemma removeSpaces_no_space: "\<forall>c \<in> set s. \<not> isSpace c \<Longrightarrow> removeSpaces s = s"
  by (simp add: removeSpaces_def)

lemma replaceAll_absent: "c \<notin> set s \<Longrightarrow> replaceAll s c r = s"
  by (induction s) (auto simp: replaceAll_def)

lemma replaceAll_same: "replaceAll s c [c] = s"
  by (induction s) (auto simp: replaceAll_def)

lemma set_replaceAll: "set (replaceAll s c r) \<subseteq> (set s - {c}) \<union> set r"
  by (induction s) (auto simp: replaceAll_def)

lemma cleanLine_fixed:
  assumes "\<forall>c \<in> set s. \<not> isSpace c" and "CHR ''O'' \<notin> set s"
  shows "cleanLine s = s"
  using assms by (simp add: cleanLine_def removeSpaces_no_space replaceAll_absent replaceAll_same)

lemma normalizeLine_fixed:
  assumes "length s = w" and "\<forall>c \<in> set s. \<not> isSpace c \<and> \<not> isLower c" and "CHR ''O'' \<notin> set s"
  shows "normalizeLine w s = s"
  using assms
  by (simp add: normalizeLine_eq trim_no_space toUpperCase_no_lower cleanLine_fixed
      fitWidth_same_length)

lemma upperChar_not_lower: "\<not> isLower (upperChar c)"
proof (cases "isLower c")
  case True
  then have "charCode c - 32 < 256" "65 \<le> charCode c - 32" "charCode c - 32 \<le> 90"
    by (auto simp: isLower_def)
  then show ?thesis
    by (simp add: upperChar_def True isLower_def charCode_def)
next
  case False
  then show ?thesis by (simp add: upperChar_def)
qed

lemma cleanLine_chars:
  assumes "c \<in> set (cleanLine (toUpperCase s))"
  shows "\<not> isSpace c \<and> \<not> isLower c \<and> c \<noteq> CHR ''O''"
proof -
  have 1: "set (cleanLine (toUpperCase s))
      \<subseteq> ((set (removeSpaces (toUpperCase s)) - {CHR ''O''}) \<union> set ''0'') \<union> set ''<''"
    unfolding cleanLine_def
    using set_replaceAll[of "replaceAll (removeSpaces (toUpperCase s)) CHR ''O'' ''0''" "CHR ''<''" "''<''"]
      set_replaceAll[of "removeSpaces (toUpperCase s)" "CHR ''O''" "''0''"]
    by blast
  have 2: "\<not> isSpace x \<and> \<not> isLower x" if "x \<in> set (removeSpaces (toUpperCase s))" for x
    using that upperChar_not_lower by (auto simp: removeSpaces_def toUpperCase_def)
  have 3: "\<not> isSpace CHR ''0'' \<and> \<not> isLower CHR ''0'' \<and> \<not> isSpace CHR ''<'' \<and> \<not> isLower CHR ''<''"
    by (simp add: isSpace_def isLower_def charCode_def)
  from assms 1 have "c \<in> set (removeSpaces (toUpperCase s)) \<and> c \<noteq> CHR ''O'' \<or> c = CHR ''0'' \<or> c = CHR ''<''"
    by auto
  with 2 3 show ?thesis by auto
qed

lemma normalizeLine_chars:
  assumes "c \<in> set (normalizeLine w s)"
  shows "\<not> isSpace c \<and> \<not> isLower c \<and> c \<noteq> CHR ''O''"
proof -
  from assms set_fitWidth[of w "cleanLine (toUpperCase (trim s))"]
  have "c = CHR ''<'' \<or> c \<in> set (cleanLine (toUpperCase (trim s)))"
    by (auto simp: normalizeLine_eq)
  then show ?thesis
  proof
    assume "c = CHR ''<''"
    then show ?thesis by (simp add: isSpace_def isLower_def charCode_def)
  next
    assume "c \<in> set (cleanLine (toUpperCase (trim s)))"
    then show ?thesis by (rule cleanLine_chars)
  qed
qed

lemma isMRZChar_plain: "isMRZChar c \<Longrightarrow> \<not> isSpace c \<and> \<not> isLower c"
  by (auto simp: isMRZChar_def isUpper_def isDigit_def isSpace_def isLower_def charCode_def)

subsection \<open>Where the lines of a call come from\<close>

lemma candidateLines_subset:
  "set (candidateLines text) \<subseteq> (\<lambda>line. toUpperCase (trim line)) ` set (split text CHR 0x0A)"
  by (auto simp: candidateLines_def Let_def)

lemma fitLines_lines:
  assumes "l \<in> set (fitLines (cleanedLines text) n w)"
  shows "\<exists>raw \<in> set (split text CHR 0x0A). l = normalizeLine w raw"
proof -
  from assms obtain x where x: "x \<in> set (cleanedLines text)" "l = fitWidth w x"
    by (auto simp: fitLines_eq dest: in_set_takeD)
  then obtain y where y: "y \<in> set (candidateLines text)" "x = cleanLine y"
    by (auto simp: cleanedLines_def cleanLines_def)
  with candidateLines_subset obtain raw where
    "raw \<in> set (split text CHR 0x0A)" "y = toUpperCase (trim raw)"
    by blast
  with x y show ?thesis by (auto simp: normalizeLine_eq)
qed

section \<open>The claims about the pipeline\<close>

subsection \<open>Format selection\<close>

text \<open>
  A parser that never throws is called at most once in a run: the second call is in the
  \<^verbatim>\<open>catch\<close> of the TD1 attempt and nowhere else.
\<close>

lemma never_throwing_parser_one_call:
  assumes "\<forall>ls. \<exists>r. p ls = Inr r"
  shows "length (parseCalls p text) \<le> 1"
proof (cases "3 \<le> length (cleanedLines text)")
  case True
  from assms obtain r where "p (fitLines (cleanedLines text) 3 30) = Inr r"
    by blast
  with True show ?thesis
    by (simp add: parseCalls_unfold selectAndParse_three_returns)
next
  case False
  then show ?thesis
    by (simp add: parseCalls_unfold selectAndParse_def Let_def split: sum.splits)
qed

text \<open>
  Claim C1. With at least 3 candidate lines the TD1 attempt on the first 3 lines at width
  30 is to be retried on the first 2 lines at width 36 when it fails, by a throw or by a
  result reported invalid, so that 3 lines in the shape of TD2 still give a valid TD2
  result. The method has the retry only in the \<^verbatim>\<open>catch\<close> of the TD1 attempt
  (\<^verbatim>\<open>// Try with 2 lines if 3 lines fail\<close>), so a TD1 result reported invalid is not
  retried. The run below is on three lines in the shape of TD2: the TD1 attempt is reported
  invalid, the first two lines at width 36 are a valid TD2 for the same parser, and the
  method makes the one call and reports the validation failure.
\<close>

theorem invalid_td1_not_retried:
  "length (cleanedLines threeTD2Lines) = 3
   \<and> sampleParser (map (fitWidth 30) (take 3 (cleanedLines threeTD2Lines)))
       = Inr \<lparr>resultValid = False, resultFields = sampleFields\<rparr>
   \<and> sampleParser (map (fitWidth 36) (take 2 (cleanedLines threeTD2Lines)))
       = Inr \<lparr>resultValid = True, resultFields = sampleFields\<rparr>
   \<and> parseCalls sampleParser threeTD2Lines = [map (fitWidth 30) (take 3 (cleanedLines threeTD2Lines))]
   \<and> parseMRZFromText sampleParser threeTD2Lines
       = \<lparr>mrzData = None, mrzError = Some msgValidationFailed\<rparr>"
  by code_simp

subsection \<open>Failures\<close>

text \<open>
  Claim C2. For every text and every behaviour of the parser, \<^verbatim>\<open>parseMRZFromText\<close>
  returns with exactly one of \<^verbatim>\<open>mrzData\<close> and \<^verbatim>\<open>mrzError\<close> set; an error that
  leaves the body of its \<^verbatim>\<open>try\<close> does not leave the method but becomes the diagnostic
  of the \<^verbatim>\<open>catch\<close>.
\<close>

theorem exactly_one_signal:
  "((mrzData (parseMRZFromText p text) = None) \<noteq> (mrzError (parseMRZFromText p text) = None))
   \<and> (\<forall>e. snd (parseMRZFromText_try p text) = Inl e \<longrightarrow>
         parseMRZFromText p text = \<lparr>mrzData = None, mrzError = Some msgCouldNotParse\<rparr>)"
proof (intro conjI allI impI)
  show "(mrzData (parseMRZFromText p text) = None) \<noteq> (mrzError (parseMRZFromText p text) = None)"
    using projectResult_exactly_one
    by (simp add: parseMRZFromText_unfold split: sum.splits option.splits)
next
  fix e
  assume "snd (parseMRZFromText_try p text) = Inl e"
  then show "parseMRZFromText p text = \<lparr>mrzData = None, mrzError = Some msgCouldNotParse\<rparr>"
    by (simp add: parseMRZFromText_def)
qed

theorem exactly_one_signal_witness:
  "snd (parseMRZFromText_try sampleParser twoLinesBadChar) = Inl (JSError ''invalid character'')
   \<and> parseMRZFromText sampleParser twoLinesBadChar
       = \<lparr>mrzData = None, mrzError = Some msgCouldNotParse\<rparr>
   \<and> (mrzData (parseMRZFromText sampleParser twoTD3Lines) = None)
       \<noteq> (mrzError (parseMRZFromText sampleParser twoTD3Lines) = None)"
proof -
  have a: "snd (parseMRZFromText_try sampleParser twoLinesBadChar) = Inl (JSError ''invalid character'')"
    by code_simp
  from a exactly_one_signal[of sampleParser twoLinesBadChar]
    exactly_one_signal[of sampleParser twoTD3Lines]
  show ?thesis by simp
qed

text \<open>
  Claim C3 says that a failure of an attempt other than the TD1 attempt reaches the caller
  as the diagnostic of a failed validation. An error thrown there is caught by the outer
  \<^verbatim>\<open>catch\<close>, whose diagnostic is another one: on two lines with a character that the
  stand-in parser rejects the signal is the message of the \<^verbatim>\<open>catch\<close>.
\<close>

theorem thrown_failure_counterexample:
  "length (cleanedLines twoLinesBadChar) = 2
   \<and> parseCalls sampleParser twoLinesBadChar
       = [map (fitWidth 36) (take 2 (cleanedLines twoLinesBadChar))]
   \<and> sampleParser (map (fitWidth 36) (take 2 (cleanedLines twoLinesBadChar)))
       = Inl (JSError ''invalid character'')
   \<and> parseMRZFromText sampleParser twoLinesBadChar
       = \<lparr>mrzData = None, mrzError = Some msgCouldNotParse\<rparr>
   \<and> msgCouldNotParse \<noteq> msgValidationFailed"
  by code_simp

text \<open>
  Claim C3, amended. An error thrown by the parser during the TD1 attempt is swallowed and
  the first two lines are tried as TD2, and the outcome is that of the second call alone.
  An error thrown by the last call of a run (the TD2 retry, or the one call on two lines)
  is caught at the boundary of the method and becomes the diagnostic
  \<^verbatim>\<open>Could not parse MRZ\<close>. The diagnostic \<^verbatim>\<open>validation failed\<close> is that of a last call
  that returns a result reported invalid.
\<close>

theorem failure_propagation:
  "(3 \<le> length (cleanedLines text)
      \<and> p (map (fitWidth 30) (take 3 (cleanedLines text))) = Inl e \<longrightarrow>
        parseCalls p text =
          [map (fitWidth 30) (take 3 (cleanedLines text)),
           map (fitWidth 36) (take 2 (cleanedLines text))]
        \<and> parseMRZFromText p text =
           (case p (map (fitWidth 36) (take 2 (cleanedLines text))) of
              Inl e2 \<Rightarrow> \<lparr>mrzData = None, mrzError = Some msgCouldNotParse\<rparr>
            | Inr r2 \<Rightarrow> projectResult r2 (cleanedLines text)))
   \<and> (parseCalls p text \<noteq> [] \<and> p (last (parseCalls p text)) = Inl e \<longrightarrow>
        parseMRZFromText p text = \<lparr>mrzData = None, mrzError = Some msgCouldNotParse\<rparr>)
   \<and> (parseCalls p text \<noteq> [] \<and> p (last (parseCalls p text)) = Inr r \<and> \<not> resultValid r \<longrightarrow>
        parseMRZFromText p text = \<lparr>mrzData = None, mrzError = Some msgValidationFailed\<rparr>)"
proof (intro conjI impI)
  assume h: "3 \<le> length (cleanedLines text)
      \<and> p (map (fitWidth 30) (take 3 (cleanedLines text))) = Inl e"
  then have ne: "candidateLines text \<noteq> []"
    by (auto simp: length_cleanedLines)
  from h have sel: "selectAndParse p (cleanedLines text) =
      ([fitLines (cleanedLines text) 3 30, fitLines (cleanedLines text) 2 36],
       case p (fitLines (cleanedLines text) 2 36) of Inl e' \<Rightarrow> Inl e' | Inr r \<Rightarrow> Inr (Some r))"
    by (simp add: selectAndParse_three_throws fitLines_eq)
  with ne show "parseCalls p text =
          [map (fitWidth 30) (take 3 (cleanedLines text)),
           map (fitWidth 36) (take 2 (cleanedLines text))]"
    by (simp add: parseCalls_unfold fitLines_eq)
  from ne sel show "parseMRZFromText p text =
           (case p (map (fitWidth 36) (take 2 (cleanedLines text))) of
              Inl e2 \<Rightarrow> \<lparr>mrzData = None, mrzError = Some msgCouldNotParse\<rparr>
            | Inr r2 \<Rightarrow> projectResult r2 (cleanedLines text))"
    by (simp add: parseMRZFromText_unfold fitLines_eq split: sum.splits)
next
  assume h: "parseCalls p text \<noteq> [] \<and> p (last (parseCalls p text)) = Inl e"
  then have ne: "candidateLines text \<noteq> []"
    and calls: "parseCalls p text = fst (selectAndParse p (cleanedLines text))"
    by (auto simp: parseCalls_unfold split: if_splits)
  with h selectAndParse_last[of p "cleanedLines text"]
  have "snd (selectAndParse p (cleanedLines text)) = Inl e"
    by auto
  with ne show "parseMRZFromText p text = \<lparr>mrzData = None, mrzError = Some msgCouldNotParse\<rparr>"
    by (simp add: parseMRZFromText_unfold)
next
  assume h: "parseCalls p text \<noteq> [] \<and> p (last (parseCalls p text)) = Inr r \<and> \<not> resultValid r"
  then have ne: "candidateLines text \<noteq> []"
    and calls: "parseCalls p text = fst (selectAndParse p (cleanedLines text))"
    by (auto simp: parseCalls_unfold split: if_splits)
  with h selectAndParse_last[of p "cleanedLines text"]
  have "snd (selectAndParse p (cleanedLines text)) = Inr (Some r)"
    by auto
  with ne h show "parseMRZFromText p text = \<lparr>mrzData = None, mrzError = Some msgValidationFailed\<rparr>"
    by (simp add: parseMRZFromText_unfold projectResult_invalid)
qed

theorem failure_propagation_witness:
  "parseCalls sampleParser twoLinesBadChar \<noteq> []
   \<and> sampleParser (last (parseCalls sampleParser twoLinesBadChar)) = Inl (JSError ''invalid character'')
   \<and> parseMRZFromText sampleParser twoLinesBadChar
       = \<lparr>mrzData = None, mrzError = Some msgCouldNotParse\<rparr>
   \<and> parseCalls sampleParser threeTD2Lines \<noteq> []
   \<and> sampleParser (last (parseCalls sampleParser threeTD2Lines))
       = Inr \<lparr>resultValid = False, resultFields = sampleFields\<rparr>
   \<and> parseMRZFromText sampleParser threeTD2Lines
       = \<lparr>mrzData = None, mrzError = Some msgValidationFailed\<rparr>
   \<and> 3 \<le> length (cleanedLines spuriousThirdLine)
   \<and> sampleParser (map (fitWidth 30) (take 3 (cleanedLines spuriousThirdLine)))
       = Inl (JSError ''invalid character'')
   \<and> parseCalls sampleParser spuriousThirdLine =
       [map (fitWidth 30) (take 3 (cleanedLines spuriousThirdLine)),
        map (fitWidth 36) (take 2 (cleanedLines spuriousThirdLine))]"
proof -
  have a: "parseCalls sampleParser twoLinesBadChar \<noteq> []
     \<and> sampleParser (last (parseCalls sampleParser twoLinesBadChar)) = Inl (JSError ''invalid character'')"
    by code_simp
  have b: "parseCalls sampleParser threeTD2Lines \<noteq> []
     \<and> sampleParser (last (parseCalls sampleParser threeTD2Lines))
         = Inr \<lparr>resultValid = False, resultFields = sampleFields\<rparr>"
    by code_simp
  have c: "3 \<le> length (cleanedLines spuriousThirdLine)
     \<and> sampleParser (map (fitWidth 30) (take 3 (cleanedLines spuriousThirdLine)))
         = Inl (JSError ''invalid character'')"
    by code_simp
  from a failure_propagation[of twoLinesBadChar sampleParser "JSError ''invalid character''"]
  have 1: "parseMRZFromText sampleParser twoLinesBadChar
       = \<lparr>mrzData = None, mrzError = Some msgCouldNotParse\<rparr>"
    by blast
  from b failure_propagation[of threeTD2Lines sampleParser _
      "\<lparr>resultValid = False, resultFields = sampleFields\<rparr>"]
  have 2: "parseMRZFromText sampleParser threeTD2Lines
       = \<lparr>mrzData = None, mrzError = Some msgValidationFailed\<rparr>"
    by simp
  from c failure_propagation[of spuriousThirdLine sampleParser "JSError ''invalid character''"]
  have 3: "parseCalls sampleParser spuriousThirdLine =
       [map (fitWidth 30) (take 3 (cleanedLines spuriousThirdLine)),
        map (fitWidth 36) (take 2 (cleanedLines spuriousThirdLine))]"
    by blast
  from a b c 1 2 3 show ?thesis by blast
qed

text \<open>
  Claim C4. With fewer than two candidate lines the parser is never called: with no
  candidate line, as for the empty text, the signal is the diagnostic
  \<^verbatim>\<open>No MRZ detected\<close>, and with exactly one it is the diagnostic
  \<^verbatim>\<open>Incomplete MRZ detected. Need at least 2 lines.\<close>
\<close>

theorem fewer_than_two_candidates:
  "(length (candidateLines text) = 0 \<longrightarrow>
      parseCalls p text = []
      \<and> parseMRZFromText p text = \<lparr>mrzData = None, mrzError = Some msgNoMRZ\<rparr>)
   \<and> (length (candidateLines text) = 1 \<longrightarrow>
      parseCalls p text = []
      \<and> parseMRZFromText p text = \<lparr>mrzData = None, mrzError = Some msgIncomplete\<rparr>)
   \<and> candidateLines '''' = []"
proof (intro conjI impI)
  assume "length (candidateLines text) = 0"
  then show "parseCalls p text = []"
    and "parseMRZFromText p text = \<lparr>mrzData = None, mrzError = Some msgNoMRZ\<rparr>"
    by (simp_all add: parseCalls_unfold parseMRZFromText_unfold)
next
  assume h: "length (candidateLines text) = 1"
  then have ne: "candidateLines text \<noteq> []" by auto
  from h have "selectAndParse p (cleanedLines text) = ([], Inr None)"
    by (simp add: selectAndParse_short length_cleanedLines)
  with ne show "parseCalls p text = []"
    and "parseMRZFromText p text = \<lparr>mrzData = None, mrzError = Some msgIncomplete\<rparr>"
    by (simp_all add: parseCalls_unfold parseMRZFromText_unfold)
next
  show "candidateLines '''' = []"
    by (simp add: candidateLines_def trim_def toUpperCase_def includesChar_def
        removeSpaces_def testMRZPattern_def)
qed

theorem fewer_than_two_candidates_witness:
  "length (candidateLines '''') = 0
   \<and> parseMRZFromText sampleParser '''' = \<lparr>mrzData = None, mrzError = Some msgNoMRZ\<rparr>
   \<and> length (candidateLines oneCandidateLine) = 1
   \<and> parseCalls sampleParser oneCandidateLine = []
   \<and> parseMRZFromText sampleParser oneCandidateLine
       = \<lparr>mrzData = None, mrzError = Some msgIncomplete\<rparr>"
proof -
  have a: "length (candidateLines '''') = 0"
    by code_simp
  have b: "length (candidateLines oneCandidateLine) = 1"
    by code_simp
  from a b fewer_than_two_candidates[of "''''" sampleParser]
    fewer_than_two_candidates[of oneCandidateLine sampleParser]
  show ?thesis by blast
qed

subsection \<open>Normalized lines\<close>

lemma length_normalizeLine: "length (normalizeLine w line) = w"
  by (simp add: normalizeLine_eq length_fitWidth)

lemma parseCalls_shape:
  assumes "c \<in> set (parseCalls p text)"
  shows "\<exists>n w. (n = 3 \<and> w = 30 \<or> n = 2 \<and> w = 36 \<or> n = 2 \<and> w = 44)
           \<and> length c = n
           \<and> (\<forall>l \<in> set c. length l = w \<and> (\<exists>raw \<in> set (split text CHR 0x0A). l = normalizeLine w raw))"
proof -
  from assms have "c \<in> set (fst (selectAndParse p (cleanedLines text)))"
    by (simp add: parseCalls_unfold split: if_splits)
  from selectAndParse_calls[OF this]
  obtain n w where nw: "n = 3 \<and> w = 30 \<or> n = 2 \<and> w = 36 \<or> n = 2 \<and> w = 44"
    and n: "n \<le> length (cleanedLines text)" and c: "c = fitLines (cleanedLines text) n w"
    by blast
  from n c have len: "length c = n"
    by (simp add: fitLines_eq)
  have "length l = w \<and> (\<exists>raw \<in> set (split text CHR 0x0A). l = normalizeLine w raw)"
    if "l \<in> set c" for l
  proof -
    from that c fitLines_lines[of l _ n w]
    obtain raw where raw: "raw \<in> set (split text CHR 0x0A)" "l = normalizeLine w raw"
      by blast
    then show ?thesis
      by (auto simp: length_normalizeLine)
  qed
  with nw len show ?thesis by blast
qed

text \<open>
  Claim C5. The line that the normalization produces for a target width has exactly that
  width, for every line and every width, 30, 36 and 44 among them. In a run of the method,
  every line handed to the parser is the normalization of a line of the text for the width
  of the attempt and has exactly that width: three lines of 30, two of 36 or two of 44.
\<close>

theorem normalized_width:
  "length (normalizeLine w line) = w
   \<and> (\<forall>c \<in> set (parseCalls p text).
        length c = 3
          \<and> (\<forall>l \<in> set c. length l = 30
                \<and> (\<exists>raw \<in> set (split text CHR 0x0A). l = normalizeLine 30 raw))
      \<or> length c = 2
          \<and> (\<forall>l \<in> set c. length l = 36
                \<and> (\<exists>raw \<in> set (split text CHR 0x0A). l = normalizeLine 36 raw))
      \<or> length c = 2
          \<and> (\<forall>l \<in> set c. length l = 44
                \<and> (\<exists>raw \<in> set (split text CHR 0x0A). l = normalizeLine 44 raw)))"
proof (intro conjI ballI)
  show "length (normalizeLine w line) = w"
    by (rule length_normalizeLine)
next
  fix c
  assume "c \<in> set (parseCalls p text)"
  from parseCalls_shape[OF this]
  show "length c = 3
          \<and> (\<forall>l \<in> set c. length l = 30
                \<and> (\<exists>raw \<in> set (split text CHR 0x0A). l = normalizeLine 30 raw))
      \<or> length c = 2
          \<and> (\<forall>l \<in> set c. length l = 36
                \<and> (\<exists>raw \<in> set (split text CHR 0x0A). l = normalizeLine 36 raw))
      \<or> length c = 2
          \<and> (\<forall>l \<in> set c. length l = 44
                \<and> (\<exists>raw \<in> set (split text CHR 0x0A). l = normalizeLine 44 raw))"
    by blast
qed

theorem normalized_width_witness:
  "length (normalizeLine 30 ''  p<uto eriksson << anna  '') = 30
   \<and> length (normalizeLine 36 ''  p<uto eriksson << anna  '') = 36
   \<and> length (normalizeLine 44 ''  p<uto eriksson << anna  '') = 44
   \<and> parseCalls sampleParser spuriousThirdLine =
       [[''I<UT0ERIKSS0N<<ANNA<MARIA<<<<<'', ''D231458907UT07408122F1204159<<'',
         ''SIGNATURE:<J.D0E><<<<<<<<<<<<<''],
        [''I<UT0ERIKSS0N<<ANNA<MARIA<<<<<<<<<<<'', ''D231458907UT07408122F1204159<<<<<<<6'']]
   \<and> list_all (\<lambda>c. list_all (\<lambda>l. length l = 30) c \<or> list_all (\<lambda>l. length l = 36) c
         \<or> list_all (\<lambda>l. length l = 44) c) (parseCalls sampleParser spuriousThirdLine)"
proof -
  have calls: "parseCalls sampleParser spuriousThirdLine =
       [[''I<UT0ERIKSS0N<<ANNA<MARIA<<<<<'', ''D231458907UT07408122F1204159<<'',
         ''SIGNATURE:<J.D0E><<<<<<<<<<<<<''],
        [''I<UT0ERIKSS0N<<ANNA<MARIA<<<<<<<<<<<'', ''D231458907UT07408122F1204159<<<<<<<6'']]"
    by code_simp
  note t = normalized_width[of _ "''  p<uto eriksson << anna  ''" sampleParser spuriousThirdLine]
  have "list_all (\<lambda>c. list_all (\<lambda>l. length l = 30) c \<or> list_all (\<lambda>l. length l = 36) c
         \<or> list_all (\<lambda>l. length l = 44) c) (parseCalls sampleParser spuriousThirdLine)"
    unfolding list_all_iff using t[of 30] by blast
  with calls t[of 30] t[of 36] t[of 44] show ?thesis by blast
qed

text \<open>
  Claim C8. A line that is already normalized for the width \<open>w\<close> (characters of the MRZ set
  only, so upper case and without white space, no letter O, length \<open>w\<close>) is returned
  unchanged by the normalization for \<open>w\<close>; and normalizing twice for the same width is the
  same as normalizing once.
\<close>

theorem normalizeLine_idempotent:
  "(length line = w \<and> list_all isMRZChar line \<and> CHR ''O'' \<notin> set line \<longrightarrow>
      normalizeLine w line = line)
   \<and> normalizeLine w (normalizeLine w s) = normalizeLine w s"
proof (intro conjI impI)
  assume h: "length line = w \<and> list_all isMRZChar line \<and> CHR ''O'' \<notin> set line"
  then have "\<forall>c \<in> set line. \<not> isSpace c \<and> \<not> isLower c"
    by (simp add: list_all_iff isMRZChar_plain)
  with h show "normalizeLine w line = line"
    by (simp add: normalizeLine_fixed)
next
  have "\<forall>c \<in> set (normalizeLine w s). \<not> isSpace c \<and> \<not> isLower c"
    and "CHR ''O'' \<notin> set (normalizeLine w s)"
    using normalizeLine_chars[of _ w s] by blast+
  then show "normalizeLine w (normalizeLine w s) = normalizeLine w s"
    by (simp add: normalizeLine_fixed length_normalizeLine)
qed

theorem normalizeLine_idempotent_witness:
  "length ''D231458907UT07408122F1204159<<<<<<<6'' = 36
   \<and> list_all isMRZChar ''D231458907UT07408122F1204159<<<<<<<6''
   \<and> CHR ''O'' \<notin> set ''D231458907UT07408122F1204159<<<<<<<6''
   \<and> normalizeLine 36 ''D231458907UT07408122F1204159<<<<<<<6''
       = ''D231458907UT07408122F1204159<<<<<<<6''"
proof -
  have a: "length ''D231458907UT07408122F1204159<<<<<<<6'' = 36
   \<and> list_all isMRZChar ''D231458907UT07408122F1204159<<<<<<<6''
   \<and> CHR ''O'' \<notin> set ''D231458907UT07408122F1204159<<<<<<<6''"
    by (simp add: isMRZChar_def isUpper_def isDigit_def charCode_def)
  from a normalizeLine_idempotent[of "''D231458907UT07408122F1204159<<<<<<<6''" 36]
  show ?thesis by blast
qed

subsection \<open>The raw lines of the record\<close>

text \<open>
  Claim C9 says that \<^verbatim>\<open>rawMRZ\<close> holds the normalized lines of the successful attempt at
  their target width. The method stores \<^verbatim>\<open>cleanedLines\<close>: on two lines, the first of 25
  characters, the attempt is made on lines of width 36 and the record keeps the line of 25.
\<close>

theorem rawMRZ_not_fitted_counterexample:
  "parseCalls sampleParser twoShortLines =
     [[''I<UT0ERIKSS0N<<ANNA<MARIA<<<<<<<<<<<'', ''D231458907UT07408122F1204159<<<<<<<6'']]
   \<and> map_option rawMRZ (mrzData (parseMRZFromText sampleParser twoShortLines)) =
       Some [''I<UT0ERIKSS0N<<ANNA<MARIA'', ''D231458907UT07408122F1204159<<<<<<<6'']
   \<and> map_option (map length \<circ> rawMRZ) (mrzData (parseMRZFromText sampleParser twoShortLines)) =
       Some [25, 36]"
  by code_simp

text \<open>
  Claim C9, amended. On every successful parse the field \<^verbatim>\<open>rawMRZ\<close> of the record is
  the sequence of all cleaned candidate lines (white space removed, O replaced by 0), before
  any truncation or padding; the lines of the successful attempt are the first 3 of them
  fitted to width 30, or the first 2 fitted to width 36 or to width 44.
\<close>

theorem rawMRZ_cleaned_lines:
  "mrzData (parseMRZFromText p text) = Some d \<longrightarrow>
     rawMRZ d = cleanedLines text
     \<and> parseCalls p text \<noteq> []
     \<and> (last (parseCalls p text) = map (fitWidth 30) (take 3 (rawMRZ d))
        \<or> last (parseCalls p text) = map (fitWidth 36) (take 2 (rawMRZ d))
        \<or> last (parseCalls p text) = map (fitWidth 44) (take 2 (rawMRZ d)))"
proof
  assume h: "mrzData (parseMRZFromText p text) = Some d"
  then have ne: "candidateLines text \<noteq> []"
    by (auto simp: parseMRZFromText_unfold split: if_splits)
  with h obtain r where r: "snd (selectAndParse p (cleanedLines text)) = Inr (Some r)"
    and pr: "mrzData (projectResult r (cleanedLines text)) = Some d"
    by (auto simp: parseMRZFromText_unfold split: sum.splits option.splits)
  from projectResult_Some[OF pr] have raw: "rawMRZ d = cleanedLines text"
    by simp
  from ne have calls: "parseCalls p text = fst (selectAndParse p (cleanedLines text))"
    by (simp add: parseCalls_unfold)
  from r selectAndParse_last[of p "cleanedLines text"] calls
  have nonempty: "parseCalls p text \<noteq> []"
    by auto
  then have "last (parseCalls p text) \<in> set (fst (selectAndParse p (cleanedLines text)))"
    using calls by (metis last_in_set)
  from selectAndParse_calls[OF this] raw
  have "last (parseCalls p text) = map (fitWidth 30) (take 3 (rawMRZ d))
        \<or> last (parseCalls p text) = map (fitWidth 36) (take 2 (rawMRZ d))
        \<or> last (parseCalls p text) = map (fitWidth 44) (take 2 (rawMRZ d))"
    by (auto simp: fitLines_eq)
  with raw nonempty show "rawMRZ d = cleanedLines text
     \<and> parseCalls p text \<noteq> []
     \<and> (last (parseCalls p text) = map (fitWidth 30) (take 3 (rawMRZ d))
        \<or> last (parseCalls p text) = map (fitWidth 36) (take 2 (rawMRZ d))
        \<or> last (parseCalls p text) = map (fitWidth 44) (take 2 (rawMRZ d)))"
    by blast
qed

theorem rawMRZ_cleaned_lines_witness:
  "\<exists>d. mrzData (parseMRZFromText sampleParser twoTD3Lines) = Some d
       \<and> rawMRZ d = cleanedLines twoTD3Lines
       \<and> rawMRZ d = [''P<UT0ERIKSS0N<<ANNA<MARIA<<<<<<<<<<<<<<<<<<<'',
                      ''L898902C36UT07408122F1204159ZE184226B<<<<<10'']"
proof -
  have "mrzData (parseMRZFromText sampleParser twoTD3Lines) \<noteq> None"
    by code_simp
  then obtain d where d: "mrzData (parseMRZFromText sampleParser twoTD3Lines) = Some d"
    by blast
  have cl: "cleanedLines twoTD3Lines = [''P<UT0ERIKSS0N<<ANNA<MARIA<<<<<<<<<<<<<<<<<<<'',
                      ''L898902C36UT07408122F1204159ZE184226B<<<<<10'']"
    by code_simp
  from d cl rawMRZ_cleaned_lines[of sampleParser twoTD3Lines d] show ?thesis
    by simp
qed

end
